theory Spec2Isabelle
  imports Complex_Main "HOL-Library.Word"
begin

section \<open>Errors\<close>

text \<open>
  Every exception the converter can raise is a value.  \<open>RuntimeError\<close> carries a message in
  the source; here each message is its own constructor.
\<close>

datatype error =
    FileNotFoundError
  | ValueError
  | KeyError
  | IndexError
  | ZeroDivisionError
  | OverflowError
  | BrokenPipeError
  | FfprobeFailed                 \<comment> \<open>\<open>RuntimeError("ffprobe failed: ...")\<close>\<close>
  | FfprobeUnparsable             \<comment> \<open>\<open>RuntimeError("Failed to parse ffprobe output")\<close>\<close>
  | NoVideoStream                 \<comment> \<open>\<open>RuntimeError("No video stream found in file")\<close>\<close>
  | FfmpegDied                    \<comment> \<open>\<open>RuntimeError("FFmpeg process died")\<close>\<close>
  | FfmpegFailed int              \<comment> \<open>\<open>RuntimeError("FFmpeg failed with code ...")\<close>\<close>
  | FrameProcessingError nat error
    \<comment> \<open>\<open>RuntimeError("Frame processing error at frame {frame_count}: {frame_error}")\<close>\<close>

section \<open>Frames\<close>

text \<open>
  A frame is a numpy array of dtype \<open>uint8\<close> and shape \<open>(height, width, channels)\<close>.  The
  buffer is kept in row-major order as the list of its \<open>height * width\<close> pixels, each pixel the
  list of its channel bytes (the view \<open>frame.reshape(-1, channels)\<close>); \<open>tobytes\<close> is the
  concatenation of the pixels.
\<close>

type_synonym uint8 = "8 word"

record ndarray =
  height :: nat
  width :: nat
  channels :: nat
  pixels :: "uint8 list list"

definition tobytes :: "ndarray \<Rightarrow> uint8 list" where
  "tobytes frame = concat (pixels frame)"

definition wf_frame :: "ndarray \<Rightarrow> bool" where
  "wf_frame frame \<longleftrightarrow>
     length (pixels frame) = height frame * width frame \<and>
     list_all (\<lambda>px. length px = channels frame) (pixels frame)"

subsection \<open>\<open>convert_black_to_transparent\<close>\<close>

text \<open>
  \<open>np.concatenate([frame, alpha], axis=2)\<close> with \<open>alpha\<close> a \<open>(height, width, 1)\<close> array filled
  with 255: every pixel gets one more channel, holding 255.
\<close>

definition concatenate_alpha :: "ndarray \<Rightarrow> ndarray" where
  "concatenate_alpha frame =
     frame\<lparr>channels := channels frame + 1, pixels := map (\<lambda>px. px @ [255]) (pixels frame)\<rparr>"

text \<open>
  \<open>np.all(frame[:, :, :3] <= threshold, axis=2)\<close>, one boolean per pixel.  The threshold is a
  Python integer, so the comparison is between integers.
\<close>

definition black_pixel :: "int \<Rightarrow> uint8 list \<Rightarrow> bool" where
  "black_pixel threshold px = list_all (\<lambda>c. uint c \<le> threshold) (take 3 px)"

definition black_mask :: "int \<Rightarrow> ndarray \<Rightarrow> bool list" where
  "black_mask threshold frame = map (black_pixel threshold) (pixels frame)"

text \<open>
  \<open>frame[black_mask, 3] = 0\<close>.  numpy checks the index 3 against the size of the last axis
  whatever the mask selects, and raises IndexError when there are fewer than four channels.
\<close>

definition assign_alpha_zero :: "bool list \<Rightarrow> ndarray \<Rightarrow> error + ndarray" where
  "assign_alpha_zero sel frame =
     (if channels frame < 4 then Inl IndexError
      else Inr (frame\<lparr>pixels := map (\<lambda>(px, b). if b then px[3 := 0] else px)
                                    (zip (pixels frame) sel)\<rparr>))"

definition convert_black_to_transparent :: "ndarray \<Rightarrow> int \<Rightarrow> error + ndarray" where
  "convert_black_to_transparent frame threshold =
     (let frame = (if channels frame = 3 then concatenate_alpha frame else frame)
      in assign_alpha_zero (black_mask threshold frame) frame)"

subsection \<open>Channel normalisation in \<open>GifWriter.add_frame\<close>\<close>

text \<open>
  The block "Ensure correct frame format" of \<open>add_frame\<close>: with transparency a 3-channel
  frame gets an opaque alpha channel (\<open>np.full((height, width, 1), 255)\<close> concatenated on
  axis 2); without it a 4-channel frame is sliced to \<open>frame[:, :, :3]\<close>.  Frames of any other
  channel count pass unchanged.
\<close>

definition ensure_frame_format :: "bool \<Rightarrow> ndarray \<Rightarrow> ndarray" where
  "ensure_frame_format use_transparency frame =
     (if use_transparency then
        (if channels frame = 3 then concatenate_alpha frame else frame)
      else
        (if channels frame = 4
         then frame\<lparr>channels := 3, pixels := map (take 3) (pixels frame)\<rparr>
         else frame))"

subsection \<open>\<open>convert_black_to_transparent\<close> on a store\<close>

text \<open>
  numpy arrays are mutable objects and \<open>frame[black_mask, 3] = 0\<close> writes in place.  To see
  which buffer is written, the arrays live in a store: a list of buffers, an address being an
  index.  Allocation appends, so it never reuses an address.  The boolean mask is not a
  \<open>uint8\<close> buffer and is kept as a value.
\<close>

type_synonym store = "ndarray list"

definition alloc :: "store \<Rightarrow> ndarray \<Rightarrow> store \<times> nat" where
  "alloc s a = (s @ [a], length s)"

text \<open>\<open>np.ones((frame.shape[0], frame.shape[1], 1), dtype=np.uint8) * 255\<close>\<close>

definition alpha_plane :: "ndarray \<Rightarrow> ndarray" where
  "alpha_plane frame =
     \<lparr>height = height frame, width = width frame, channels = 1,
      pixels = replicate (height frame * width frame) [255]\<rparr>"

definition convert_black_to_transparent_st ::
    "store \<Rightarrow> nat \<Rightarrow> int \<Rightarrow> (error + nat) \<times> store" where
  "convert_black_to_transparent_st s frame threshold =
     (let (s, frame) = alloc s (s ! frame);
          (s, frame) =
            (if channels (s ! frame) = 3 then
               (let (s, alpha) = alloc s (alpha_plane (s ! frame))
                in alloc s (concatenate_alpha (s ! frame)))
             else (s, frame));
          sel = black_mask threshold (s ! frame)
      in case assign_alpha_zero sel (s ! frame) of
           Inl e \<Rightarrow> (Inl e, s)
         | Inr a \<Rightarrow> (Inr frame, s[frame := a]))"

section \<open>Python's \<open>int()\<close> and \<open>float()\<close> on strings\<close>

text \<open>
  ffprobe's JSON gives the frame rate, the durations and the frame count as strings, which
  \<open>get_info\<close> converts with \<open>int()\<close> and \<open>float()\<close>.  Both strip surrounding whitespace,
  take an optional sign, and allow single underscores between digits; anything else is a
  ValueError.  A character stands for the code point of its number, so strings are those of
  code points below 256.  The whitespace both functions skip is tab to carriage return (9 to
  13), the space, and the two blanks above 127 in that range, U+0085 and U+00A0; the
  separators 28 to 31 are not skipped.  A Python float is modelled as a real number: the
  value of the decimal literal, without the rounding to a double, so a literal too small or too large for a double keeps
  its value instead of becoming 0.0 or infinite; the literals \<open>inf\<close>, \<open>infinity\<close> and \<open>nan\<close>,
  which \<open>float()\<close> also accepts, have no real value and are a ValueError here.
\<close>

definition is_space :: "char \<Rightarrow> bool" where
  "is_space c \<longleftrightarrow>
     (let n = (of_char c :: nat) in (9 \<le> n \<and> n \<le> 13) \<or> n = 32 \<or> n = 133 \<or> n = 160)"

definition strip :: "string \<Rightarrow> string" where
  "strip s = rev (dropWhile is_space (rev (dropWhile is_space s)))"

definition is_digit :: "char \<Rightarrow> bool" where
  "is_digit c \<longleftrightarrow> 48 \<le> (of_char c :: nat) \<and> (of_char c :: nat) \<le> 57"

definition digit_value :: "char \<Rightarrow> nat" where
  "digit_value c = of_char c - 48"

text \<open>A digit part: decimal digits, possibly grouped by single underscores.\<close>

fun digit_part :: "string \<Rightarrow> bool" where
  "digit_part [] = False"
| "digit_part [c] = is_digit c"
| "digit_part (c # d # cs) =
     (is_digit c \<and> (if d = CHR ''_'' then digit_part cs else digit_part (d # cs)))"

definition digits_value :: "string \<Rightarrow> nat" where
  "digits_value ds =
     foldl (\<lambda>acc c. 10 * acc + digit_value c) 0 (filter (\<lambda>c. c \<noteq> CHR ''_'') ds)"

definition split_sign :: "string \<Rightarrow> bool \<times> string" where
  "split_sign s =
     (case s of
        [] \<Rightarrow> (False, s)
      | c # r \<Rightarrow> if c = CHR ''-'' then (True, r) else if c = CHR ''+'' then (False, r)
                 else (False, s))"

definition py_int :: "string \<Rightarrow> error + int" where
  "py_int s =
     (let (neg, ds) = split_sign (strip s)
      in if digit_part ds
         then Inr (if neg then - int (digits_value ds) else int (digits_value ds))
         else Inl ValueError)"

definition is_exp_mark :: "char \<Rightarrow> bool" where
  "is_exp_mark c \<longleftrightarrow> c = CHR ''e'' \<or> c = CHR ''E''"

definition py_float :: "string \<Rightarrow> error + real" where
  "py_float s =
     (let (neg, u) = split_sign (strip s);
          mant = takeWhile (\<lambda>c. \<not> is_exp_mark c) u;
          ex = dropWhile (\<lambda>c. \<not> is_exp_mark c) u;
          ip = takeWhile (\<lambda>c. c \<noteq> CHR ''.'') mant;
          fp = drop 1 (dropWhile (\<lambda>c. c \<noteq> CHR ''.'') mant);
          has_point = (CHR ''.'' \<in> set mant);
          (eneg, ed) = split_sign (drop 1 ex);
          mant_ok = (if has_point
                     then (ip = [] \<or> digit_part ip) \<and> (fp = [] \<or> digit_part fp) \<and>
                          \<not> (ip = [] \<and> fp = [])
                     else digit_part ip);
          exp_ok = (ex = [] \<or> digit_part ed);
          frac_len = length (filter (\<lambda>c. c \<noteq> CHR ''_'') fp);
          m = real (digits_value ip) + real (digits_value fp) / 10 ^ frac_len;
          e = (if ex = [] then 0 else digits_value ed);
          v = (if eneg then m / 10 ^ e else m * 10 ^ e)
      in if mant_ok \<and> exp_ok then Inr (if neg then - v else v) else Inl ValueError)"

text \<open>\<open>s.split(sep)\<close> for a one-character separator.\<close>

fun split :: "char \<Rightarrow> string \<Rightarrow> string list" where
  "split sep [] = [[]]"
| "split sep (c # cs) =
     (if c = sep then [] # split sep cs
      else (case split sep cs of
              [] \<Rightarrow> [[c]]
            | p # ps \<Rightarrow> (c # p) # ps))"

text \<open>\<open>sub in s\<close> for strings.\<close>

fun contains :: "string \<Rightarrow> string \<Rightarrow> bool" where
  "contains [] sub = (sub = [])"
| "contains (c # cs) sub = (take (length sub) (c # cs) = sub \<or> contains cs sub)"

section \<open>\<open>WebmDecoder\<close>\<close>

subsection \<open>The ffprobe output\<close>

text \<open>
  \<open>get_info\<close> runs ffprobe and reads its JSON.  The run is outside the program; its outcome is
  an input of the model: the process failed (\<open>CalledProcessError\<close>), its output was not JSON
  (\<open>JSONDecodeError\<close>), or it is the parsed object.  Of that object the model keeps the entries
  \<open>get_info\<close> reads, each optional as a dictionary key is: \<open>streams\<close> (a list of stream
  objects), \<open>format.duration\<close>, and per stream \<open>r_frame_rate\<close>, \<open>duration\<close>, \<open>nb_frames\<close>,
  \<open>pix_fmt\<close> (strings, as ffprobe writes them) and \<open>width\<close>, \<open>height\<close> (JSON numbers,
  never negative).
\<close>

record stream_entry =
  r_frame_rate :: "string option"
  duration :: "string option"
  nb_frames :: "string option"
  pix_fmt :: "string option"
  stream_width :: "nat option"
  stream_height :: "nat option"

record format_entry =
  format_duration :: "string option"

record probe_json =
  streams :: "stream_entry list option"
  format :: "format_entry option"

datatype ffprobe_result = CalledProcessError | JSONDecodeError | Json probe_json

text \<open>The dictionary \<open>get_info\<close> returns.\<close>

record video_info =
  info_width :: nat
  info_height :: nat
  info_fps :: real
  info_duration :: real
  info_nb_frames :: int
  has_alpha :: bool
  info_pix_fmt :: string

subsection \<open>\<open>get_info\<close>\<close>

text \<open>
  "Parse frame rate".  \<open>num, den = map(int, fps_str.split('/'))\<close> raises ValueError unless the
  split has exactly two parts and both are integers; \<open>num / den\<close> is the quotient of the two
  integers as a float.
\<close>

definition parse_frame_rate :: "string \<Rightarrow> error + real" where
  "parse_frame_rate fps_str =
     (if CHR ''/'' \<in> set fps_str then
        (case split (CHR ''/'') fps_str of
           [a, b] \<Rightarrow>
             (case py_int a of
                Inl e \<Rightarrow> Inl e
              | Inr num \<Rightarrow>
                  (case py_int b of
                     Inl e \<Rightarrow> Inl e
                   | Inr den \<Rightarrow> Inr (if den \<noteq> 0 then real_of_int num / real_of_int den else 30)))
         | _ \<Rightarrow> Inl ValueError)
      else py_float fps_str)"

text \<open>
  "Get duration".  The duration is first looked up in the format entry, and in the stream only
  when the format entry has none (\<open>if ... elif\<close>); a duration that is missing or not positive
  is replaced by \<open>int(nb_frames) / fps\<close> when \<open>nb_frames\<close> is a non-empty string, and by 10.0
  otherwise.  Dividing by a zero \<open>fps\<close> raises ZeroDivisionError.
\<close>

definition probe_duration :: "format_entry option \<Rightarrow> stream_entry \<Rightarrow> real \<Rightarrow> error + real" where
  "probe_duration fmt stream fps =
     (let found =
            (case (case fmt of None \<Rightarrow> None | Some f \<Rightarrow> format_duration f) of
               Some d \<Rightarrow> map_sum id Some (py_float d)
             | None \<Rightarrow>
                 (case duration stream of
                    Some d \<Rightarrow> map_sum id Some (py_float d)
                  | None \<Rightarrow> Inr None));
          from_frames =
            (case nb_frames stream of
               None \<Rightarrow> Inr 10
             | Some n \<Rightarrow>
                 if n = [] then Inr 10
                 else (case py_int n of
                         Inl e \<Rightarrow> Inl e
                       | Inr k \<Rightarrow> if fps = 0 then Inl ZeroDivisionError
                                  else Inr (real_of_int k / fps)))
      in case found of
           Inl e \<Rightarrow> Inl e
         | Inr None \<Rightarrow> from_frames
         | Inr (Some d) \<Rightarrow> if d \<le> 0 then from_frames else Inr d)"

text \<open>"Check for alpha channel".\<close>

definition detect_alpha :: "string \<Rightarrow> bool" where
  "detect_alpha pix \<longleftrightarrow> contains pix ''yuva'' \<or> contains pix ''rgba'' \<or> contains pix ''argb''"

text \<open>
  The body of \<open>get_info\<close> after the cache check, in the order in which the source evaluates
  it; the dictionary literal converts \<open>width\<close>, \<open>height\<close> (KeyError when absent) and
  \<open>nb_frames\<close> (default 0) last.
\<close>

definition read_probe :: "ffprobe_result \<Rightarrow> error + video_info" where
  "read_probe r =
     (case r of
        CalledProcessError \<Rightarrow> Inl FfprobeFailed
      | JSONDecodeError \<Rightarrow> Inl FfprobeUnparsable
      | Json data \<Rightarrow>
          (case streams data of
             None \<Rightarrow> Inl NoVideoStream
           | Some [] \<Rightarrow> Inl NoVideoStream
           | Some (stream # _) \<Rightarrow>
               (case parse_frame_rate (case r_frame_rate stream of None \<Rightarrow> ''30/1'' | Some s \<Rightarrow> s) of
                  Inl e \<Rightarrow> Inl e
                | Inr fps \<Rightarrow>
                    (case probe_duration (format data) stream fps of
                       Inl e \<Rightarrow> Inl e
                     | Inr dur \<Rightarrow>
                         (let pix = (case pix_fmt stream of None \<Rightarrow> [] | Some p \<Rightarrow> p)
                          in case stream_width stream of
                               None \<Rightarrow> Inl KeyError
                             | Some w \<Rightarrow>
                                 (case stream_height stream of
                                    None \<Rightarrow> Inl KeyError
                                  | Some h \<Rightarrow>
                                      (case (case nb_frames stream of
                                               None \<Rightarrow> Inr 0 | Some n \<Rightarrow> py_int n) of
                                         Inl e \<Rightarrow> Inl e
                                       | Inr nb \<Rightarrow>
                                           Inr \<lparr>info_width = w, info_height = h, info_fps = fps,
                                                info_duration = dur, info_nb_frames = nb,
                                                has_alpha = detect_alpha pix,
                                                info_pix_fmt = pix\<rparr>)))))))"

subsection \<open>The world outside the program\<close>

text \<open>
  The converter talks to three external programs and to the file system.  What they answer is
  not the converter's to decide, so it is a parameter of the model:
  \<^item> \<open>ffprobe\<close>: the outcome of probing a path;
  \<^item> \<open>ffmpeg_sample\<close>: exit code and standard output of the sampling run of
    \<open>analyze_black_pixels\<close>, for a path and the sample count;
  \<^item> \<open>ffmpeg_decode\<close>: all the bytes the decoding process writes to its standard output, for
    a path and a pixel format;
  \<^item> the encoder, described by what a write to its standard input does, given the process as
    it is and the bytes written (\<open>encoder_write\<close>), by the exit code it ends with once its
    input is closed (\<open>encoder_exit\<close>), and by the output file it has put on disk so far
    (\<open>encoder_output\<close>, \<open>None\<close> while it has not created one);
  \<^item> \<open>with_suffix\<close>: pathlib's replacement of a path's extension.
  The file system is a map from paths to file contents.
\<close>

type_synonym files = "string \<Rightarrow> uint8 list option"

text \<open>
  A write of a frame either goes through, or the write or the flush after it raises
  BrokenPipeError.  Of a broken pipe the world also says whether the process has exited when
  \<open>add_frame\<close> polls it, and whether bytes of the frame stay behind in the buffer of the pipe
  object (it was the flush that failed): closing the pipe flushes them again.
\<close>

datatype write_outcome = Written | BrokenPipe (exited: bool) (buffered: bool)

record popen =
  pix_fmt_arg :: string
  size_arg :: "nat \<times> nat"
  rate_arg :: real
  transparent_filter :: bool
  output_arg :: string
  stdin_data :: "uint8 list"
  unflushed :: bool
  stdin_closed :: bool
  returncode :: "int option"

record env =
  ffprobe :: "string \<Rightarrow> ffprobe_result"
  ffmpeg_sample :: "string \<Rightarrow> nat \<Rightarrow> int \<times> uint8 list"
  ffmpeg_decode :: "string \<Rightarrow> string \<Rightarrow> uint8 list"
  encoder_write :: "popen \<Rightarrow> uint8 list \<Rightarrow> write_outcome"
  encoder_exit :: "popen \<Rightarrow> int"
  encoder_output :: "popen \<Rightarrow> uint8 list option"
  with_suffix :: "string \<Rightarrow> string \<Rightarrow> string"

definition encoder_effect :: "env \<Rightarrow> popen \<Rightarrow> files \<Rightarrow> files" where
  "encoder_effect ev p fs =
     (case encoder_output ev p of
        None \<Rightarrow> fs
      | Some bytes \<Rightarrow> fs(output_arg p \<mapsto> bytes))"

subsection \<open>The decoder object\<close>

record webm_decoder =
  filepath :: string
  cached_info :: "video_info option"

definition WebmDecoder :: "files \<Rightarrow> string \<Rightarrow> error + webm_decoder" where
  "WebmDecoder fs path =
     (if fs path = None then Inl FileNotFoundError
      else Inr \<lparr>filepath = path, cached_info = None\<rparr>)"

definition get_info :: "env \<Rightarrow> webm_decoder \<Rightarrow> (error + video_info) \<times> webm_decoder" where
  "get_info ev dec =
     (case cached_info dec of
        Some info \<Rightarrow> (Inr info, dec)
      | None \<Rightarrow>
          (case read_probe (ffprobe ev (filepath dec)) of
             Inl e \<Rightarrow> (Inl e, dec)
           | Inr info \<Rightarrow> (Inr info, dec\<lparr>cached_info := Some info\<rparr>)))"

subsection \<open>\<open>analyze_black_pixels\<close>\<close>

text \<open>
  \<open>frame.reshape(-1, n)\<close>: the buffer cut into runs of \<open>n\<close> bytes.  It is only used with
  \<open>n = 3\<close> or \<open>n = 4\<close> on buffers whose length is a multiple of \<open>n\<close>.
\<close>

function reshape :: "nat \<Rightarrow> uint8 list \<Rightarrow> uint8 list list" where
  "reshape n buf = (if n = 0 \<or> buf = [] then [] else take n buf # reshape n (drop n buf))"
  by pat_completeness auto
termination
  by (relation "measure (\<lambda>(n, buf). length buf)") auto
declare reshape.simps [simp del]

text \<open>
  The loop \<open>for i in range(0, len(data), frame_size)\<close>: it stops at the end of the data or at
  the first slice shorter than a frame, and counts in each full slice the pixels whose three
  bytes are all below 20.
\<close>

function count_black :: "nat \<Rightarrow> uint8 list \<Rightarrow> nat \<times> nat \<Rightarrow> nat \<times> nat" where
  "count_black frame_size data (total_black, total_pixels) =
     (if frame_size = 0 \<or> data = [] then (total_black, total_pixels)
      else let frame_data = take frame_size data in
        if length frame_data < frame_size then (total_black, total_pixels)
        else count_black frame_size (drop frame_size data)
               (total_black
                  + length (filter (list_all (\<lambda>c. uint c < 20)) (reshape 3 frame_data)),
                total_pixels + length frame_data div 3))"
  by pat_completeness auto
termination
  by (relation "measure (\<lambda>(frame_size, data, acc). length data)") auto
declare count_black.simps [simp del]

text \<open>
  \<open>range\<close> with a step of 0 raises ValueError, which happens when the probed width or height
  is 0 and the sampling run succeeded.
\<close>

definition analyze_black_pixels ::
    "env \<Rightarrow> webm_decoder \<Rightarrow> nat \<Rightarrow> (error + real) \<times> webm_decoder" where
  "analyze_black_pixels ev dec sample_frames =
     (case get_info ev dec of
        (Inl e, dec) \<Rightarrow> (Inl e, dec)
      | (Inr info, dec) \<Rightarrow>
          (let (rc, data) = ffmpeg_sample ev (filepath dec) sample_frames;
               frame_size = min 320 (info_width info) * min 240 (info_height info) * 3
           in if rc \<noteq> 0 then (Inr 0, dec)
              else if frame_size = 0 then (Inl ValueError, dec)
              else (let (total_black, total_pixels) = count_black frame_size data (0, 0)
                    in (Inr (if total_pixels > 0 then real total_black / real total_pixels else 0),
                        dec))))"

subsection \<open>\<open>decode_frames\<close>\<close>

text \<open>
  \<open>decode_frames\<close> is a generator.  Nothing of its body runs before the first pull; the
  first pull reads the info, picks the pixel format, starts the decoding process and enters
  the loop; every pull runs the loop up to the next \<open>yield\<close>.  The generator is therefore a
  state and a step function: \<open>Fresh\<close> before the first pull, \<open>Running\<close> inside the loop
  (with the bytes the process has still to deliver and the frame counter), \<open>Finished\<close> once
  the loop has ended or an exception has left it.  A pull returns a frame with its timestamp,
  or the end of the sequence, or an exception.  The \<open>finally\<close> block, which stops the
  decoding process, changes nothing that the program reads later and is left out.
\<close>

record decode_run =
  run_width :: nat
  run_height :: nat
  run_channels :: nat
  run_fps :: real
  run_stdout :: "uint8 list"
  run_frame_count :: nat

datatype decode_gen = Fresh bool | Running decode_run | Finished

datatype 'a pull = Yielded 'a | Exhausted | Raised error

text \<open>
  One turn of \<open>while True\<close>: \<open>process.stdout.read(frame_size)\<close> returns \<open>frame_size\<close>
  bytes, or fewer when the stream ends first; \<open>frame_count / info['fps']\<close> raises
  ZeroDivisionError for a zero frame rate.
\<close>

definition read_frame :: "decode_run \<Rightarrow> (ndarray \<times> real) pull \<times> decode_gen" where
  "read_frame run =
     (let frame_size = run_width run * run_height run * run_channels run;
          raw_frame = take frame_size (run_stdout run)
      in if length raw_frame \<noteq> frame_size then (Exhausted, Finished)
         else if run_fps run = 0 then (Raised ZeroDivisionError, Finished)
         else (Yielded (\<lparr>height = run_height run, width = run_width run,
                          channels = run_channels run,
                          pixels = reshape (run_channels run) raw_frame\<rparr>,
                        real (run_frame_count run) / run_fps run),
               Running (run\<lparr>run_stdout := drop frame_size (run_stdout run),
                            run_frame_count := run_frame_count run + 1\<rparr>)))"

definition next_frame ::
    "env \<Rightarrow> webm_decoder \<Rightarrow> decode_gen \<Rightarrow> ((ndarray \<times> real) pull \<times> decode_gen) \<times> webm_decoder" where
  "next_frame ev dec gen =
     (case gen of
        Finished \<Rightarrow> ((Exhausted, Finished), dec)
      | Running run \<Rightarrow> (read_frame run, dec)
      | Fresh use_alpha \<Rightarrow>
          (case get_info ev dec of
             (Inl e, dec) \<Rightarrow> ((Raised e, Finished), dec)
           | (Inr info, dec) \<Rightarrow>
               (let (pix, chans) = (if has_alpha info \<or> use_alpha then (''rgba'', 4)
                                    else (''rgb24'', 3))
                in (read_frame \<lparr>run_width = info_width info, run_height = info_height info,
                                 run_channels = chans, run_fps = info_fps info,
                                 run_stdout = ffmpeg_decode ev (filepath dec) pix,
                                 run_frame_count = 0\<rparr>,
                    dec))))"

text \<open>
  Consuming the generator to its end, as \<open>list(decoder.decode_frames(...))\<close> would: the frames
  yielded, and the exception that ended the sequence if one did.  With a frame size of 0 every
  read succeeds and the loop never ends; the result is then \<open>None\<close>.
\<close>

partial_function (option) decode_all ::
    "env \<Rightarrow> webm_decoder \<Rightarrow> decode_gen \<Rightarrow> ((ndarray \<times> real) list \<times> error option) option" where
  "decode_all ev dec gen =
     (case next_frame ev dec gen of
        ((Exhausted, _), _) \<Rightarrow> Some ([], None)
      | ((Raised e, _), _) \<Rightarrow> Some ([], Some e)
      | ((Yielded x, gen'), dec') \<Rightarrow>
          Option.bind (decode_all ev dec' gen') (\<lambda>(xs, err). Some (x # xs, err)))"

section \<open>\<open>GifWriter\<close>\<close>

record gif_writer =
  output_path :: string
  fps :: real
  use_transparency :: bool
  process :: "popen option"
  frame_count :: nat
  started_width :: "nat option"
  started_height :: "nat option"

definition GifWriter :: "string \<Rightarrow> real \<Rightarrow> bool \<Rightarrow> gif_writer" where
  "GifWriter path rate transparency =
     \<lparr>output_path = path, fps = rate, use_transparency = transparency, process = None,
      frame_count = 0, started_width = None, started_height = None\<rparr>"

text \<open>
  \<open>_start_ffmpeg\<close>.  The command line is kept as the arguments that vary: pixel format,
  size, rate, whether the filter reserves a transparent palette entry, and the output path.
\<close>

definition start_ffmpeg ::
    "env \<Rightarrow> gif_writer \<Rightarrow> nat \<Rightarrow> nat \<Rightarrow> files \<Rightarrow> gif_writer \<times> files" where
  "start_ffmpeg ev w wd ht fs =
     (let p = \<lparr>pix_fmt_arg = (if use_transparency w then ''rgba'' else ''rgb24''),
               size_arg = (wd, ht), rate_arg = fps w,
               transparent_filter = use_transparency w, output_arg = output_path w,
               stdin_data = [], unflushed = False, stdin_closed = False,
               returncode = None\<rparr>
      in (w\<lparr>started_width := Some wd, started_height := Some ht, process := Some p\<rparr>,
          encoder_effect ev p fs))"

text \<open>
  \<open>add_frame\<close>.  Frames are \<open>uint8\<close> arrays, so the \<open>dtype\<close> conversion never applies.  A
  BrokenPipeError of the write becomes "FFmpeg process died" when the process has exited.
\<close>

definition add_frame ::
    "env \<Rightarrow> gif_writer \<Rightarrow> ndarray \<Rightarrow> files \<Rightarrow> (error + unit) \<times> gif_writer \<times> files" where
  "add_frame ev w frame fs =
     (let (w, fs) = (if process w = None then start_ffmpeg ev w (width frame) (height frame) fs
                     else (w, fs));
          frame = ensure_frame_format (use_transparency w) frame
      in case process w of
           None \<Rightarrow> (Inr (), w, fs)
         | Some p \<Rightarrow>
             (case encoder_write ev p (tobytes frame) of
                Written \<Rightarrow>
                  (let p = p\<lparr>stdin_data := stdin_data p @ tobytes frame\<rparr>
                   in (Inr (), w\<lparr>process := Some p, frame_count := frame_count w + 1\<rparr>,
                       encoder_effect ev p fs))
              | BrokenPipe gone left \<Rightarrow>
                  (let p = p\<lparr>unflushed := left,
                              returncode := (if gone then Some (encoder_exit ev p) else None)\<rparr>
                   in (Inl (if gone then FfmpegDied else BrokenPipeError),
                       w\<lparr>process := Some p\<rparr>, encoder_effect ev p fs))))"

text \<open>
  \<open>close\<close>: nothing to do when no process was started.  Otherwise \<open>stdin.close()\<close> flushes
  first; with bytes left from a failed write that raises BrokenPipeError, the pipe is closed
  all the same and the process is not waited for.
\<close>

definition close :: "env \<Rightarrow> gif_writer \<Rightarrow> files \<Rightarrow> (error + unit) \<times> gif_writer \<times> files" where
  "close ev w fs =
     (case process w of
        None \<Rightarrow> (Inr (), w, fs)
      | Some p \<Rightarrow>
          if unflushed p then
            (let p = p\<lparr>stdin_closed := True\<rparr>
             in (Inl BrokenPipeError, w\<lparr>process := Some p\<rparr>, encoder_effect ev p fs))
          else
            (let rc = encoder_exit ev (p\<lparr>stdin_closed := True\<rparr>);
                 p = p\<lparr>stdin_closed := True, returncode := Some rc\<rparr>;
                 fs = encoder_effect ev p fs
             in if rc \<noteq> 0 then (Inl (FfmpegFailed rc), w\<lparr>process := Some p\<rparr>, fs)
                else (Inr (), w\<lparr>process := None\<rparr>, fs)))"

section \<open>\<open>convert_webm_to_gif\<close>\<close>

text \<open>
  "Auto-detect transparency requirements": the pair \<open>(use_transparency, convert_black)\<close>.
  With an alpha channel the black-pixel analysis is not run and its ratio plays no part.  The
  ratio is compared with the literal \<open>0.1\<close>, here the real number one tenth.
\<close>

definition detect_transparency :: "bool \<Rightarrow> real \<Rightarrow> bool \<times> bool" where
  "detect_transparency alpha black_ratio =
     (if alpha then (True, False)
      else if black_ratio > 1 / 10 then (True, True)
      else (False, False))"

text \<open>"Convert black to transparent if needed", with the threshold the call site passes.\<close>

definition process_frame :: "bool \<Rightarrow> ndarray \<Rightarrow> error + ndarray" where
  "process_frame convert_black frame =
     (if convert_black then convert_black_to_transparent frame 16 else Inr frame)"

text \<open>
  The \<open>for\<close> loop over the decoded frames.  Any exception inside it, from the generator, from
  the masking or from \<open>add_frame\<close>, is re-raised as "Frame processing error at frame n".  The
  progress bar only prints and is left out.  The loop ends when the generator does; a
  generator that never ends (frame size 0) makes the result \<open>None\<close>.
\<close>

partial_function (option) frame_loop ::
    "env \<Rightarrow> bool \<Rightarrow> webm_decoder \<Rightarrow> decode_gen \<Rightarrow> gif_writer \<Rightarrow> files \<Rightarrow> nat
       \<Rightarrow> ((error + nat) \<times> gif_writer \<times> files) option" where
  "frame_loop ev convert_black dec gen writer fs n =
     (case next_frame ev dec gen of
        ((Exhausted, _), _) \<Rightarrow> Some (Inr n, writer, fs)
      | ((Raised e, _), _) \<Rightarrow> Some (Inl (FrameProcessingError n e), writer, fs)
      | ((Yielded (frame, pts), gen'), dec') \<Rightarrow>
          (case process_frame convert_black frame of
             Inl e \<Rightarrow> Some (Inl (FrameProcessingError n e), writer, fs)
           | Inr frame' \<Rightarrow>
               (case add_frame ev writer frame' fs of
                  (Inl e, writer', fs') \<Rightarrow> Some (Inl (FrameProcessingError n e), writer', fs')
                | (Inr _, writer', fs') \<Rightarrow>
                    frame_loop ev convert_black dec' gen' writer' fs' (n + 1))))"

text \<open>
  "Create progress bar": \<open>int(info['duration'] * info['fps'])\<close>, replaced by 100 when it is
  not positive.  \<open>int()\<close> truncates towards zero.  A product beyond the range of a double is
  infinite in Python and \<open>int()\<close> of it raises OverflowError; on the real numbers that range
  is the bound \<open>2 ^ 1024\<close>.  (A NaN product, the other way \<open>int()\<close> fails, does not exist on
  the real numbers.)
\<close>

definition estimated_frames :: "video_info \<Rightarrow> error + int" where
  "estimated_frames info =
     (let x = info_duration info * info_fps info
      in if 2 ^ 1024 \<le> \<bar>x\<bar> then Inl OverflowError
         else (let n = (if 0 \<le> x then \<lfloor>x\<rfloor> else \<lceil>x\<rceil>)
               in Inr (if n \<le> 0 then 100 else n)))"

text \<open>
  The encoder is a process of its own.  The function only ends it in \<open>writer.close()\<close>, which
  waits for it; an exception that leaves the frame loop bypasses that call, and nothing else
  closes, waits for or stops the encoder.  \<open>running_process\<close> is the encoder a writer has
  started and that has not been seen to exit.
\<close>

definition running_process :: "gif_writer \<Rightarrow> popen option" where
  "running_process w =
     (case process w of
        None \<Rightarrow> None
      | Some p \<Rightarrow> if returncode p = None then Some p else None)"

text \<open>
  The body of the outer \<open>try\<close>: probe, detect transparency, size the progress bar, stream
  the frames, close the writer, read the size of the output (\<open>stat\<close> raises
  FileNotFoundError when there is none).  It returns the output path or the exception, the
  file system as it then is, and the encoder process that is still running, if any.
\<close>

definition try_convert ::
    "env \<Rightarrow> string \<Rightarrow> string \<Rightarrow> files \<Rightarrow> ((error + string) \<times> files \<times> popen option) option" where
  "try_convert ev webm_path gif_path fs =
     (case WebmDecoder fs webm_path of
        Inl e \<Rightarrow> Some (Inl e, fs, None)
      | Inr decoder \<Rightarrow>
          (case get_info ev decoder of
             (Inl e, _) \<Rightarrow> Some (Inl e, fs, None)
           | (Inr info, decoder) \<Rightarrow>
               (case (if has_alpha info then (Inr 0, decoder)
                      else analyze_black_pixels ev decoder 10) of
                  (Inl e, _) \<Rightarrow> Some (Inl e, fs, None)
                | (Inr black_ratio, decoder) \<Rightarrow>
                    (let (use_transp, convert_black) =
                           detect_transparency (has_alpha info) black_ratio
                     in case estimated_frames info of
                          Inl e \<Rightarrow> Some (Inl e, fs, None)
                        | Inr _ \<Rightarrow>
                            (let writer = GifWriter gif_path (info_fps info) use_transp
                             in case frame_loop ev convert_black decoder (Fresh convert_black)
                                       writer fs 0 of
                                  None \<Rightarrow> None
                                | Some (Inl e, writer, fs) \<Rightarrow>
                                    Some (Inl e, fs, running_process writer)
                                | Some (Inr _, writer, fs) \<Rightarrow>
                                    (case close ev writer fs of
                                       (Inl e, writer, fs) \<Rightarrow>
                                         Some (Inl e, fs, running_process writer)
                                     | (Inr _, writer, fs) \<Rightarrow>
                                         (case fs gif_path of
                                            None \<Rightarrow> Some (Inl FileNotFoundError, fs,
                                                           running_process writer)
                                          | Some _ \<Rightarrow> Some (Inr gif_path, fs,
                                                             running_process writer))))))))"

text \<open>
  The whole function: the output path defaults to the input path with the suffix \<open>.gif\<close>; the
  \<open>except\<close> handler removes the output file if it exists and re-raises.  The handler does
  nothing about the encoder.
\<close>

definition resolve_gif_path :: "env \<Rightarrow> string \<Rightarrow> string option \<Rightarrow> string" where
  "resolve_gif_path ev webm_path gif_path =
     (case gif_path of None \<Rightarrow> with_suffix ev webm_path ''.gif'' | Some p \<Rightarrow> p)"

definition convert_webm_to_gif ::
    "env \<Rightarrow> string \<Rightarrow> string option \<Rightarrow> files
       \<Rightarrow> ((error + string) \<times> files \<times> popen option) option" where
  "convert_webm_to_gif ev webm_path gif_path fs =
     (let gif_path = resolve_gif_path ev webm_path gif_path
      in case try_convert ev webm_path gif_path fs of
           None \<Rightarrow> None
         | Some (Inr p, fs, enc) \<Rightarrow> Some (Inr p, fs, enc)
         | Some (Inl e, fs, enc) \<Rightarrow>
             Some (Inl e, if fs gif_path \<noteq> None then fs(gif_path := None) else fs, enc))"

text \<open>
  What becomes of an encoder that is still running when the function has returned or raised:
  the writer object is dropped, which closes the pipe to the encoder's input; the encoder
  sees the end of its input, ends, and leaves on disk what it then writes.
\<close>

definition abandoned_encoder :: "env \<Rightarrow> popen option \<Rightarrow> files \<Rightarrow> files" where
  "abandoned_encoder ev enc fs =
     (case enc of
        None \<Rightarrow> fs
      | Some p \<Rightarrow>
          encoder_effect ev
            (p\<lparr>stdin_closed := True,
               returncode := Some (encoder_exit ev (p\<lparr>stdin_closed := True\<rparr>))\<rparr>) fs)"

section \<open>Concrete worlds\<close>

text \<open>
  For running the model on concrete inputs.  In all of them \<open>with_suffix\<close> replaces what
  follows the last dot of the path, which is what pathlib does for the file names used here.

  In \<open>dead_world\<close> every external program fails: ffprobe exits with an error, the sampling
  run exits with 1, the decoder writes nothing, the encoder has exited before the first write
  and has no output file.
\<close>

definition replace_suffix :: "string \<Rightarrow> string \<Rightarrow> string" where
  "replace_suffix path suffix =
     (if CHR ''.'' \<in> set path
      then rev (drop 1 (dropWhile (\<lambda>c. c \<noteq> CHR ''.'') (rev path))) @ suffix
      else path @ suffix)"

definition dead_world :: env where
  "dead_world =
     \<lparr>ffprobe = (\<lambda>path. CalledProcessError),
      ffmpeg_sample = (\<lambda>path n. (1, [])),
      ffmpeg_decode = (\<lambda>path pix. []),
      encoder_write = (\<lambda>p bytes. BrokenPipe True False),
      encoder_exit = (\<lambda>p. 1),
      encoder_output = (\<lambda>p. None),
      with_suffix = replace_suffix\<rparr>"

text \<open>
  In \<open>truncating_world\<close> the input probes as a 2 by 1 clip at 10 frames per second without
  alpha, the sampling run fails, the decoder delivers one frame of two pixels and a stray
  byte, and the encoder accepts every write, keeps on disk an output file holding what it was
  given so far, and exits with 1 when its input is closed.
\<close>

definition truncating_world :: env where
  "truncating_world =
     \<lparr>ffprobe = (\<lambda>path. Json \<lparr>streams = Some [\<lparr>r_frame_rate = Some ''10/1'', duration = None,
                                  nb_frames = Some ''1'', pix_fmt = Some ''yuv420p'',
                                  stream_width = Some 2, stream_height = Some 1\<rparr>],
                                format = None\<rparr>),
      ffmpeg_sample = (\<lambda>path n. (1, [])),
      ffmpeg_decode = (\<lambda>path pix. [1, 2, 3, 4, 5, 6, 7]),
      encoder_write = (\<lambda>p bytes. Written),
      encoder_exit = (\<lambda>p. 1),
      encoder_output = (\<lambda>p. Some (stdin_data p)),
      with_suffix = replace_suffix\<rparr>"

text \<open>
  In \<open>lagging_world\<close> the input probes as a 2 by 1 clip of two frames at 10 frames per second
  without alpha, the sampling run fails, and the decoder delivers the two frames.  The encoder
  takes the first frame; at the second it has closed its input, so the write breaks the pipe
  with the frame's bytes left in the buffer, while the process is still running.  It creates
  its output file only when it has seen the end of its input, and then writes what it was
  given.
\<close>

definition lagging_world :: env where
  "lagging_world =
     \<lparr>ffprobe = (\<lambda>path. Json \<lparr>streams = Some [\<lparr>r_frame_rate = Some ''10/1'', duration = None,
                                  nb_frames = Some ''2'', pix_fmt = Some ''yuv420p'',
                                  stream_width = Some 2, stream_height = Some 1\<rparr>],
                                format = None\<rparr>),
      ffmpeg_sample = (\<lambda>path n. (1, [])),
      ffmpeg_decode = (\<lambda>path pix. [1, 2, 3, 4, 5, 6, 7, 8, 9, 10, 11, 12]),
      encoder_write = (\<lambda>p bytes. if stdin_data p = [] then Written else BrokenPipe False True),
      encoder_exit = (\<lambda>p. 0),
      encoder_output = (\<lambda>p. if stdin_closed p then Some (stdin_data p) else None),
      with_suffix = replace_suffix\<rparr>"

section \<open>Properties of the frame transformations\<close>

lemma black_pixel_update_alpha: "black_pixel t (px[3 := v]) = black_pixel t px"
  by (simp add: black_pixel_def)

lemma black_pixel_iff:
  "3 \<le> length px \<Longrightarrow>
     black_pixel t px \<longleftrightarrow> uint (px ! 0) \<le> t \<and> uint (px ! 1) \<le> t \<and> uint (px ! 2) \<le> t"
proof -
  assume "3 \<le> length px"
  then obtain a b c r where "px = a # b # c # r"
    by (auto simp: numeral_3_eq_3 Suc_le_length_iff)
  then show ?thesis by (simp add: black_pixel_def)
qed

lemma map_zip_self: "map (\<lambda>(x, b). g x b) (zip xs (map f xs)) = map (\<lambda>x. g x (f x)) xs"
  by (induction xs) auto

lemma assign_alpha_zero_black_mask:
  "assign_alpha_zero (black_mask t frame) frame =
     (if channels frame < 4 then Inl IndexError
      else Inr (frame\<lparr>pixels :=
                  map (\<lambda>px. if black_pixel t px then px[3 := 0] else px) (pixels frame)\<rparr>))"
  by (simp add: assign_alpha_zero_def black_mask_def map_zip_self)

lemma take3_append_alpha:
  "\<forall>px\<in>set pxs. length px = 3 \<Longrightarrow> map (take 3 \<circ> (\<lambda>px. px @ [255::uint8])) pxs = pxs"
  by (induction pxs) auto

text \<open>
  Claim C5.  Black-to-transparent masking with threshold \<open>t\<close>, on a well-formed frame of 3
  or 4 channels, returns a 4-channel frame of the same dimensions in which every pixel keeps its
  three colour bytes; a pixel whose three colour channels are all at most \<open>t\<close> has alpha
  0, and every other pixel is untouched (its own alpha when the input had one, the opaque 255
  that the 3-channel path appends otherwise).  On an entirely black frame the alpha plane is
  entirely 0 and the colour bytes are the input's.
\<close>

theorem convert_black_to_transparent_masks:
  assumes wf: "wf_frame frame" and ch: "channels frame = 3 \<or> channels frame = 4"
  shows "\<exists>out. convert_black_to_transparent frame t = Inr out \<and>
           height out = height frame \<and> width out = width frame \<and> channels out = 4 \<and>
           length (pixels out) = length (pixels frame) \<and>
           (\<forall>i<length (pixels frame).
              let px = pixels frame ! i; px' = pixels out ! i in
                length px' = 4 \<and> take 3 px' = take 3 px \<and>
                (if uint (px ! 0) \<le> t \<and> uint (px ! 1) \<le> t \<and> uint (px ! 2) \<le> t
                 then px' ! 3 = 0
                 else px' = (if channels frame = 4 then px else px @ [255]))) \<and>
           ((\<forall>px\<in>set (pixels frame). uint (px ! 0) \<le> t \<and> uint (px ! 1) \<le> t \<and> uint (px ! 2) \<le> t)
              \<longrightarrow> (\<forall>px'\<in>set (pixels out). px' ! 3 = 0) \<and>
                  map (take 3) (pixels out) = map (take 3) (pixels frame))"
proof -
  let ?norm = "if channels frame = 3 then concatenate_alpha frame else frame"
  let ?f = "\<lambda>px. if black_pixel t px then px[3 := 0] else px"
  let ?out = "?norm\<lparr>pixels := map ?f (pixels ?norm)\<rparr>"
  have len: "\<And>px. px \<in> set (pixels frame) \<Longrightarrow> length px = channels frame"
    using wf by (simp add: wf_frame_def list_all_iff)
  have ch4: "channels ?norm = 4"
    using ch by (auto simp: concatenate_alpha_def)
  have res: "convert_black_to_transparent frame t = Inr ?out"
    using ch4 by (simp add: convert_black_to_transparent_def Let_def assign_alpha_zero_black_mask)
  have npx: "pixels ?norm = map (\<lambda>px. if channels frame = 4 then px else px @ [255]) (pixels frame)"
    using ch by (auto simp: concatenate_alpha_def)
  define g where "g = (\<lambda>px. ?f (if channels frame = 4 then px else px @ [255]))"
  have pix: "pixels ?out = map g (pixels frame)"
    by (simp add: npx o_def g_def)
  have pointwise: "length (g px) = 4 \<and> take 3 (g px) = take 3 px \<and>
            (if uint (px ! 0) \<le> t \<and> uint (px ! 1) \<le> t \<and> uint (px ! 2) \<le> t
             then g px ! 3 = 0 else g px = (if channels frame = 4 then px else px @ [255]))"
    if "px \<in> set (pixels frame)" for px
  proof -
    define q where "q = (if channels frame = 4 then px else px @ [255])"
    have l: "length px = channels frame" using that len by simp
    have lq: "length q = 4" using l ch q_def by auto
    have tq: "take 3 q = take 3 px" using l ch q_def by auto
    have bq: "black_pixel t q = black_pixel t px" by (simp add: black_pixel_def tq)
    have bp: "black_pixel t px \<longleftrightarrow> uint (px ! 0) \<le> t \<and> uint (px ! 1) \<le> t \<and> uint (px ! 2) \<le> t"
      using l ch by (intro black_pixel_iff) auto
    have gq: "g px = (if black_pixel t q then q[3 := 0] else q)"
      by (simp add: g_def q_def)
    show ?thesis unfolding gq q_def [symmetric] using lq tq bq bp by (auto simp: take_update_cancel)
  qed
  have A: "\<forall>i<length (pixels frame).
              let px = pixels frame ! i; px' = pixels ?out ! i in
                length px' = 4 \<and> take 3 px' = take 3 px \<and>
                (if uint (px ! 0) \<le> t \<and> uint (px ! 1) \<le> t \<and> uint (px ! 2) \<le> t
                 then px' ! 3 = 0
                 else px' = (if channels frame = 4 then px else px @ [255]))"
  proof (intro allI impI)
    fix i assume i: "i < length (pixels frame)"
    then have mem: "pixels frame ! i \<in> set (pixels frame)" by simp
    have nth: "pixels ?out ! i = g (pixels frame ! i)"
      using i by (simp only: pix nth_map)
    show "let px = pixels frame ! i; px' = pixels ?out ! i in
                length px' = 4 \<and> take 3 px' = take 3 px \<and>
                (if uint (px ! 0) \<le> t \<and> uint (px ! 1) \<le> t \<and> uint (px ! 2) \<le> t
                 then px' ! 3 = 0
                 else px' = (if channels frame = 4 then px else px @ [255]))"
      unfolding Let_def nth using pointwise [OF mem] by blast
  qed
  have B: "(\<forall>px\<in>set (pixels frame). uint (px ! 0) \<le> t \<and> uint (px ! 1) \<le> t \<and> uint (px ! 2) \<le> t)
              \<longrightarrow> (\<forall>px'\<in>set (pixels ?out). px' ! 3 = 0) \<and>
                  map (take 3) (pixels ?out) = map (take 3) (pixels frame)"
  proof (intro impI conjI)
    assume blk: "\<forall>px\<in>set (pixels frame). uint (px ! 0) \<le> t \<and> uint (px ! 1) \<le> t \<and> uint (px ! 2) \<le> t"
    show "\<forall>px'\<in>set (pixels ?out). px' ! 3 = 0"
    proof
      fix px' assume "px' \<in> set (pixels ?out)"
      then obtain px where px: "px \<in> set (pixels frame)" and eq: "px' = g px"
        unfolding pix by auto
      show "px' ! 3 = 0" using pointwise [OF px] blk px unfolding eq by (simp split: if_splits)
    qed
    show "map (take 3) (pixels ?out) = map (take 3) (pixels frame)"
      unfolding pix map_map
    proof (rule map_cong [OF refl])
      fix px assume px: "px \<in> set (pixels frame)"
      show "(take 3 \<circ> g) px = take 3 px"
        using pointwise [OF px] by simp
    qed
  qed
  have C: "height ?out = height frame \<and> width ?out = width frame \<and> channels ?out = 4 \<and>
           length (pixels ?out) = length (pixels frame)"
    using ch by (auto simp: concatenate_alpha_def)
  show ?thesis
    using res A B C by blast
qed

theorem convert_black_to_transparent_masks_witness:
  "wf_frame \<lparr>height = 1, width = 2, channels = 3, pixels = [[0, 16, 3], [200, 10, 5]]\<rparr> \<and>
   (\<exists>out. convert_black_to_transparent
             \<lparr>height = 1, width = 2, channels = 3, pixels = [[0, 16, 3], [200, 10, 5]]\<rparr> 16
           = Inr out \<and> channels out = 4 \<and>
           pixels out = [[0, 16, 3, 0], [200, 10, 5, 255]])"
proof -
  let ?f = "\<lparr>height = 1, width = 2, channels = 3, pixels = [[0, 16, 3], [200, 10, 5 :: uint8]]\<rparr>"
  have wf: "wf_frame ?f" by (simp add: wf_frame_def)
  have ch: "channels ?f = 3 \<or> channels ?f = 4" by simp
  from convert_black_to_transparent_masks [OF wf ch, of 16]
  obtain out where r: "convert_black_to_transparent ?f 16 = Inr out" and c: "channels out = 4"
    by blast
  have "convert_black_to_transparent ?f 16 =
          Inr \<lparr>height = 1, width = 2, channels = 4,
               pixels = [[0, 16, 3, 0], [200, 10, 5, 255]]\<rparr>"
    by (simp add: convert_black_to_transparent_def concatenate_alpha_def assign_alpha_zero_def
        black_mask_def black_pixel_def Let_def)
  with r c wf show ?thesis by auto
qed

text \<open>
  Claim C6.  Black-to-transparent masking is idempotent: for every frame and threshold,
  applying it to its own result gives that result again (and a first application that raises
  stays that error).
\<close>

theorem convert_black_to_transparent_idempotent:
  "(case convert_black_to_transparent frame t of
      Inl e \<Rightarrow> Inl e
    | Inr once \<Rightarrow> convert_black_to_transparent once t)
   = convert_black_to_transparent frame t"
  by (auto simp: convert_black_to_transparent_def assign_alpha_zero_black_mask Let_def
      concatenate_alpha_def black_pixel_update_alpha o_def)

text \<open>
  Claim C7.  Channel normalisation round-trips on colour: a well-formed 3-channel frame that
  is given an opaque alpha channel (the transparency branch of \<open>add_frame\<close>) and is then
  stripped of its fourth channel (the other branch) is the original frame, byte for byte.
\<close>

theorem channel_normalization_round_trip:
  assumes "wf_frame frame" and "channels frame = 3"
  shows "ensure_frame_format False (ensure_frame_format True frame) = frame
         \<and> channels (ensure_frame_format True frame) = 4
         \<and> tobytes (ensure_frame_format False (ensure_frame_format True frame)) = tobytes frame"
  using assms
  by (simp add: ensure_frame_format_def concatenate_alpha_def wf_frame_def list_all_iff
      take3_append_alpha tobytes_def)

theorem channel_normalization_round_trip_witness:
  "wf_frame \<lparr>height = 1, width = 2, channels = 3, pixels = [[1, 2, 3], [4, 5, 6]]\<rparr> \<and>
   tobytes (ensure_frame_format False (ensure_frame_format True
      \<lparr>height = 1, width = 2, channels = 3, pixels = [[1, 2, 3], [4, 5, 6]]\<rparr>))
     = [1, 2, 3, 4, 5, 6] \<and>
   pixels (ensure_frame_format True
      \<lparr>height = 1, width = 2, channels = 3, pixels = [[1, 2, 3], [4, 5, 6]]\<rparr>)
     = [[1, 2, 3, 255], [4, 5, 6, 255]]"
proof -
  let ?f = "\<lparr>height = 1, width = 2, channels = 3, pixels = [[1, 2, 3], [4, 5, 6 :: uint8]]\<rparr>"
  have wf: "wf_frame ?f" by (simp add: wf_frame_def)
  have ch: "channels ?f = 3" by simp
  have "pixels (ensure_frame_format True ?f) = [[1, 2, 3, 255], [4, 5, 6, 255]]"
    by (simp add: ensure_frame_format_def concatenate_alpha_def)
  with wf channel_normalization_round_trip [OF wf ch] show ?thesis
    by (simp add: tobytes_def)
qed

text \<open>
  Claim C10.  \<open>convert_black_to_transparent\<close> never mutates its input: run on a store, it
  leaves every buffer that existed before the call unchanged (the caller's frame among them),
  the buffer it returns is a fresh one, holding the value computed by the function, and for a
  frame of 3 or 4 channels that buffer has 4 channels.
\<close>

theorem convert_black_to_transparent_st_fresh:
  assumes valid: "frame < length s"
  shows "case convert_black_to_transparent_st s frame t of (r, s') \<Rightarrow>
           length s \<le> length s' \<and> (\<forall>a<length s. s' ! a = s ! a) \<and>
           (case r of
              Inl e \<Rightarrow> convert_black_to_transparent (s ! frame) t = Inl e
            | Inr a \<Rightarrow> length s \<le> a \<and> a < length s' \<and>
                       convert_black_to_transparent (s ! frame) t = Inr (s' ! a)) \<and>
           (channels (s ! frame) = 3 \<or> channels (s ! frame) = 4 \<longrightarrow>
              (\<exists>a. r = Inr a \<and> channels (s' ! a) = 4))"
proof (cases "channels (s ! frame) = 3")
  case True
  let ?c = "concatenate_alpha (s ! frame)"
  have c4: "channels ?c = 4" using True by (simp add: concatenate_alpha_def)
  have st: "convert_black_to_transparent_st s frame t =
        (case assign_alpha_zero (black_mask t ?c) ?c of
           Inl e \<Rightarrow> (Inl e, s @ [s ! frame, alpha_plane (s ! frame), ?c])
         | Inr a \<Rightarrow> (Inr (Suc (Suc (length s))), (s @ [s ! frame, alpha_plane (s ! frame), ?c])[Suc (Suc (length s)) := a]))"
    using True valid
    by (simp add: convert_black_to_transparent_st_def alloc_def Let_def nth_append)
  have v: "convert_black_to_transparent (s ! frame) t = assign_alpha_zero (black_mask t ?c) ?c"
    using True by (simp add: convert_black_to_transparent_def Let_def)
  show ?thesis
    unfolding st v using c4
    by (auto simp: assign_alpha_zero_black_mask nth_append nth_list_update)
next
  case False
  let ?c = "s ! frame"
  have st: "convert_black_to_transparent_st s frame t =
        (case assign_alpha_zero (black_mask t ?c) ?c of
           Inl e \<Rightarrow> (Inl e, s @ [s ! frame])
         | Inr a \<Rightarrow> (Inr (length s), (s @ [s ! frame])[length s := a]))"
    using False valid
    by (simp add: convert_black_to_transparent_st_def alloc_def Let_def nth_append)
  have v: "convert_black_to_transparent (s ! frame) t = assign_alpha_zero (black_mask t ?c) ?c"
    using False by (simp add: convert_black_to_transparent_def Let_def)
  show ?thesis
    unfolding st v using False
    by (auto simp: assign_alpha_zero_black_mask nth_append nth_list_update)
qed

theorem convert_black_to_transparent_st_fresh_witness:
  "(0::nat) < length [\<lparr>height = 1, width = 2, channels = 3, pixels = [[0, 0, 0], [200, 10, 5]]\<rparr>] \<and>
   (case convert_black_to_transparent_st
           [\<lparr>height = 1, width = 2, channels = 3, pixels = [[0, 0, 0], [200, 10, 5]]\<rparr>] 0 16 of
      (r, s') \<Rightarrow> r = Inr 3 \<and>
        s' ! 0 = \<lparr>height = 1, width = 2, channels = 3, pixels = [[0, 0, 0], [200, 10, 5]]\<rparr> \<and>
        s' ! 3 = \<lparr>height = 1, width = 2, channels = 4,
                   pixels = [[0, 0, 0, 0], [200, 10, 5, 255]]\<rparr>)"
proof -
  let ?s = "[\<lparr>height = 1, width = 2, channels = 3, pixels = [[0, 0, 0], [200, 10, 5 :: uint8]]\<rparr>]"
  have v: "(0::nat) < length ?s" by simp
  have "convert_black_to_transparent_st ?s 0 16 =
          (Inr 3, [?s ! 0, ?s ! 0, alpha_plane (?s ! 0),
                   \<lparr>height = 1, width = 2, channels = 4,
                    pixels = [[0, 0, 0, 0], [200, 10, 5, 255]]\<rparr>])"
    by (simp add: convert_black_to_transparent_st_def alloc_def Let_def concatenate_alpha_def
        assign_alpha_zero_def black_mask_def black_pixel_def)
  with convert_black_to_transparent_st_fresh [OF v, of 16] show ?thesis
    by simp
qed

section \<open>Properties of the conversion\<close>

text \<open>
  Claim C1.  The transparency decision is a function of \<open>has_alpha\<close> and the black ratio
  alone: with an alpha channel the plan uses transparency and does not synthesise it from
  black, whatever the ratio; without one, both flags are exactly \<open>black_ratio > 0.10\<close>.  So
  synthesising from black implies using transparency, and a synthesising plan masks every
  frame with threshold 16.
\<close>

theorem detect_transparency_table:
  "(case detect_transparency alpha black_ratio of
      (use_transp, convert_black) \<Rightarrow>
        (alpha \<longrightarrow> use_transp \<and> \<not> convert_black) \<and>
        (\<not> alpha \<longrightarrow> use_transp = (black_ratio > 1 / 10) \<and>
                     convert_black = (black_ratio > 1 / 10)) \<and>
        (convert_black \<longrightarrow> use_transp) \<and>
        (convert_black \<longrightarrow>
           process_frame convert_black frame = convert_black_to_transparent frame 16) \<and>
        (\<not> convert_black \<longrightarrow> process_frame convert_black frame = Inr frame))"
  by (simp add: detect_transparency_def process_frame_def)

theorem detect_transparency_table_witness:
  "detect_transparency True (35 / 100) = (True, False) \<and>
   detect_transparency True 0 = (True, False) \<and>
   detect_transparency False (5 / 100) = (False, False) \<and>
   detect_transparency False (35 / 100) = (True, True) \<and>
   process_frame (snd (detect_transparency False (35 / 100)))
       \<lparr>height = 1, width = 1, channels = 3, pixels = [[1, 2, 3]]\<rparr>
     = convert_black_to_transparent
         \<lparr>height = 1, width = 1, channels = 3, pixels = [[1, 2, 3]]\<rparr> 16"
proof -
  have a: "detect_transparency True (35 / 100) = (True, False)"
    and b: "detect_transparency True 0 = (True, False)"
    and c: "detect_transparency False (5 / 100) = (False, False)"
    and d: "detect_transparency False (35 / 100) = (True, True)"
    by (simp_all add: detect_transparency_def)
  from detect_transparency_table [of False "35 / 100"
      "\<lparr>height = 1, width = 1, channels = 3, pixels = [[1, 2, 3]]\<rparr>"]
  show ?thesis using a b c d by simp
qed

text \<open>
  Claim C2, as the spec words it, says that closing a writer that never received a frame
  fails.  The code guards \<open>close\<close> with \<open>if self.process is not None\<close>: in a world whose
  encoder would exit with 1, closing a fresh writer still returns normally.
\<close>

theorem close_without_frames_counterexample:
  "close dead_world (GifWriter ''out.gif'' 30 False) Map.empty
     = (Inr (), GifWriter ''out.gif'' 30 False, Map.empty) \<and>
   encoder_exit dead_world
     \<lparr>pix_fmt_arg = ''rgb24'', size_arg = (0, 0), rate_arg = 30, transparent_filter = False,
      output_arg = ''out.gif'', stdin_data = [], unflushed = False, stdin_closed = True,
      returncode = None\<rparr> = 1"
  by (simp add: close_def GifWriter_def dead_world_def)

text \<open>
  Claim C2, amended.  A writer that received no \<open>add_frame\<close> call has started no encoder
  process, and \<open>close\<close> on it returns successfully, leaving the writer and the file system
  as they were.
\<close>

theorem close_without_frames:
  "process (GifWriter path rate transparency) = None \<and>
   close ev (GifWriter path rate transparency) fs = (Inr (), GifWriter path rate transparency, fs)"
  by (simp add: close_def GifWriter_def)

section \<open>Properties of the probe\<close>

lemma split_no_sep: "sep \<notin> set s \<Longrightarrow> split sep s = [s]"
  by (induction s) auto

lemma split_at_sep: "sep \<notin> set a \<Longrightarrow> split sep (a @ sep # b) = a # split sep b"
  by (induction a) auto

lemma set_dropWhile_cover: "set xs \<subseteq> {c. P c} \<union> set (dropWhile P xs)"
  by (induction xs) auto

lemma set_strip_cover: "set s \<subseteq> {c. is_space c} \<union> set (strip s)"
proof -
  have "set (dropWhile is_space s) \<subseteq> {c. is_space c} \<union> set (strip s)"
    using set_dropWhile_cover [of "rev (dropWhile is_space s)" is_space]
    by (simp add: strip_def)
  with set_dropWhile_cover [of s is_space] show ?thesis by blast
qed

lemma set_split_sign_cover:
  "set s \<subseteq> {CHR ''-'', CHR ''+''} \<union> set (snd (split_sign s))"
  by (auto simp: split_sign_def split: list.splits if_splits)

lemma digit_part_chars: "digit_part ds \<Longrightarrow> c \<in> set ds \<Longrightarrow> is_digit c \<or> c = CHR ''_''"
  by (induction ds rule: digit_part.induct) (auto split: if_splits)

lemma py_int_chars:
  assumes "py_int s = Inr n" and "c \<in> set s"
  shows "is_space c \<or> c = CHR ''-'' \<or> c = CHR ''+'' \<or> c = CHR ''_'' \<or> is_digit c"
proof -
  from assms(1) have dp: "digit_part (snd (split_sign (strip s)))"
    by (auto simp: py_int_def Let_def split: prod.splits if_splits)
  from assms(2) set_strip_cover [of s] have "is_space c \<or> c \<in> set (strip s)" by auto
  moreover have "c \<in> set (strip s) \<Longrightarrow> c = CHR ''-'' \<or> c = CHR ''+'' \<or> c \<in> set (snd (split_sign (strip s)))"
    using set_split_sign_cover [of "strip s"] by auto
  ultimately show ?thesis using digit_part_chars [OF dp] by blast
qed

lemma py_int_no_slash: "py_int s = Inr n \<Longrightarrow> CHR ''/'' \<notin> set s"
proof
  assume a: "py_int s = Inr n" and b: "CHR ''/'' \<in> set s"
  from py_int_chars [OF a b] show False
    by (simp add: is_space_def is_digit_def)
qed

text \<open>
  Claim C9.  Frame-rate parsing: a string \<open>num/den\<close> of two integers gives \<open>num / den\<close>, and 30
  when \<open>den\<close> is 0; a string without a slash is parsed as a float.  \<open>30000/1001\<close> gives
  30000/1001, which is within a thousandth of 29.97; \<open>25/0\<close> gives 30; \<open>24\<close> gives 24.
\<close>

theorem parse_frame_rate_cases:
  "(\<forall>a b num den. py_int a = Inr num \<and> py_int b = Inr den \<longrightarrow>
       parse_frame_rate (a @ ''/'' @ b)
         = Inr (if den \<noteq> 0 then real_of_int num / real_of_int den else 30)) \<and>
   (\<forall>s. CHR ''/'' \<notin> set s \<longrightarrow> parse_frame_rate s = py_float s) \<and>
   parse_frame_rate ''30000/1001'' = Inr (30000 / 1001) \<and>
   \<bar>30000 / 1001 - 2997 / 100\<bar> < (1 / 1000 :: real) \<and>
   parse_frame_rate ''25/0'' = Inr 30 \<and>
   parse_frame_rate ''24'' = Inr 24"
proof (intro conjI allI impI)
  fix a b num den
  assume h: "py_int a = Inr num \<and> py_int b = Inr den"
  then have na: "CHR ''/'' \<notin> set a" and nb: "CHR ''/'' \<notin> set b"
    using py_int_no_slash by blast+
  have sp: "split (CHR ''/'') (a @ CHR ''/'' # b) = [a, b]"
    using split_at_sep [OF na, of b] split_no_sep [OF nb] by simp
  show "parse_frame_rate (a @ ''/'' @ b)
         = Inr (if den \<noteq> 0 then real_of_int num / real_of_int den else 30)"
    using h by (simp add: parse_frame_rate_def sp)
next
  fix s assume "CHR ''/'' \<notin> set s"
  then show "parse_frame_rate s = py_float s" by (simp add: parse_frame_rate_def)
next
  have i1: "py_int ''30000'' = Inr 30000" and i2: "py_int ''1001'' = Inr 1001"
    by (simp_all add: py_int_def strip_def is_space_def split_sign_def digits_value_def
        digit_value_def is_digit_def)
  show "parse_frame_rate ''30000/1001'' = Inr (30000 / 1001)"
    by (simp add: parse_frame_rate_def i1 i2)
next
  show "\<bar>30000 / 1001 - 2997 / 100\<bar> < (1 / 1000 :: real)" by simp
next
  have i1: "py_int ''25'' = Inr 25" and i2: "py_int ''0'' = Inr 0"
    by (simp_all add: py_int_def strip_def is_space_def split_sign_def digits_value_def
        digit_value_def is_digit_def)
  show "parse_frame_rate ''25/0'' = Inr 30"
    by (simp add: parse_frame_rate_def i1 i2)
next
  show "parse_frame_rate ''24'' = Inr 24"
    by (simp add: parse_frame_rate_def py_float_def strip_def is_space_def split_sign_def
        is_exp_mark_def digits_value_def digit_value_def is_digit_def)
qed

theorem parse_frame_rate_cases_witness:
  "py_int ''30000'' = Inr 30000 \<and> py_int ''1001'' = Inr 1001 \<and>
   parse_frame_rate ''30000/1001'' = Inr (30000 / 1001) \<and>
   CHR ''/'' \<notin> set ''24'' \<and> parse_frame_rate ''24'' = py_float ''24''"
proof -
  have i1: "py_int ''30000'' = Inr 30000" and i2: "py_int ''1001'' = Inr 1001"
    by (simp_all add: py_int_def strip_def is_space_def split_sign_def digits_value_def
        digit_value_def is_digit_def)
  have ns: "CHR ''/'' \<notin> set ''24''" by simp
  from parse_frame_rate_cases have
    a: "\<And>a b num den. py_int a = Inr num \<and> py_int b = Inr den \<Longrightarrow>
       parse_frame_rate (a @ ''/'' @ b)
         = Inr (if den \<noteq> 0 then real_of_int num / real_of_int den else 30)"
    and b: "\<And>s. CHR ''/'' \<notin> set s \<Longrightarrow> parse_frame_rate s = py_float s"
    by blast+
  from a [of "''30000''" 30000 "''1001''" 1001] i1 i2 b [OF ns] show ?thesis by simp
qed

lemma py_float_zero: "py_float ''0.000000'' = Inr 0"
  by (simp add: py_float_def strip_def is_space_def split_sign_def is_exp_mark_def
      digits_value_def digit_value_def is_digit_def)

lemma py_int_240: "py_int ''240'' = Inr 240"
  by (simp add: py_int_def strip_def is_space_def split_sign_def digits_value_def
      digit_value_def is_digit_def)

text \<open>
  Claim C8, as the spec words it, takes the container format duration whenever it is present.
  The code discards a duration that is not positive: with a format duration of
  \<open>0.000000\<close>, 240 frames and 24 frames per second the result is 10 seconds, not 0.
\<close>

theorem probe_duration_counterexample:
  "py_float ''0.000000'' = Inr 0 \<and>
   probe_duration (Some \<lparr>format_duration = Some ''0.000000''\<rparr>)
     \<lparr>r_frame_rate = Some ''24/1'', duration = None, nb_frames = Some ''240'',
      pix_fmt = Some ''yuv420p'', stream_width = Some 4, stream_height = Some 4\<rparr> 24
   = Inr 10"
  by (simp add: probe_duration_def py_float_zero py_int_240)

text \<open>
  Claim C8, amended.  The duration looked at is the format duration if the format entry has
  one, else the stream duration if the stream has one.  If it is there and positive it is the
  result (and if it does not parse, its ValueError is).  If it is missing or not positive, the
  result is \<open>int(nb_frames) / fps\<close> when \<open>nb_frames\<close> is a non-empty string, and 10.0 when
  \<open>nb_frames\<close> is missing or empty.  With both durations absent, \<open>nb_frames = 240\<close> and
  \<open>fps = 24\<close> the result is exactly 10.
\<close>

theorem probe_duration_chain:
  "(let fd = (case fmt of None \<Rightarrow> None | Some f \<Rightarrow> format_duration f);
        chosen = (case fd of Some s \<Rightarrow> Some s | None \<Rightarrow> duration stream);
        result = probe_duration fmt stream rate
    in (\<forall>s d. chosen = Some s \<and> py_float s = Inr d \<and> 0 < d \<longrightarrow> result = Inr d) \<and>
       (\<forall>s e. chosen = Some s \<and> py_float s = Inl e \<longrightarrow> result = Inl e) \<and>
       (chosen = None \<or> (\<exists>s d. chosen = Some s \<and> py_float s = Inr d \<and> d \<le> 0) \<longrightarrow>
          (nb_frames stream = None \<or> nb_frames stream = Some [] \<longrightarrow> result = Inr 10) \<and>
          (\<forall>n k. nb_frames stream = Some n \<and> n \<noteq> [] \<and> py_int n = Inr k \<and> rate \<noteq> 0 \<longrightarrow>
                   result = Inr (real_of_int k / rate))) \<and>
       (fd = None \<and> duration stream = None \<and> nb_frames stream = Some ''240'' \<and> rate = 24 \<longrightarrow>
          result = Inr 10))"
proof -
  show ?thesis
    unfolding Let_def probe_duration_def
    by (auto simp: py_int_240 split: option.splits sum.splits)
qed

theorem probe_duration_chain_witness:
  "probe_duration (Some \<lparr>format_duration = Some ''0.000000''\<rparr>)
     \<lparr>r_frame_rate = Some ''24/1'', duration = None, nb_frames = Some ''240'',
      pix_fmt = Some ''yuv420p'', stream_width = Some 4, stream_height = Some 4\<rparr> 24
   = Inr 10 \<and>
   probe_duration None
     \<lparr>r_frame_rate = Some ''24/1'', duration = None, nb_frames = Some ''240'',
      pix_fmt = Some ''yuv420p'', stream_width = Some 4, stream_height = Some 4\<rparr> 24
   = Inr 10"
proof -
  let ?st = "\<lparr>r_frame_rate = Some ''24/1'', duration = None, nb_frames = Some ''240'',
      pix_fmt = Some ''yuv420p'', stream_width = Some 4, stream_height = Some 4\<rparr>"
  from probe_duration_chain [of "Some \<lparr>format_duration = Some ''0.000000''\<rparr>" ?st 24]
  have a: "probe_duration (Some \<lparr>format_duration = Some ''0.000000''\<rparr>) ?st 24 = Inr 10"
    by (simp add: Let_def py_float_zero py_int_240)
  from probe_duration_chain [of None ?st 24]
  have b: "probe_duration None ?st 24 = Inr 10"
    by (simp add: Let_def)
  from a b show ?thesis by simp
qed

section \<open>Properties of the decoder\<close>

lemma concat_reshape: "0 < n \<Longrightarrow> concat (reshape n buf) = buf"
  by (induction n buf rule: reshape.induct) (subst reshape.simps, auto)

lemma decode_all_running:
  assumes "0 < run_width run * run_height run * run_channels run"
    and "run_fps run \<noteq> 0"
    and "run_stdout run = concat frames @ partial"
    and "\<forall>raw\<in>set frames. length raw = run_width run * run_height run * run_channels run"
    and "length partial < run_width run * run_height run * run_channels run"
  shows "decode_all ev dec (Running run) =
           Some (map (\<lambda>(i, raw).
                    (\<lparr>height = run_height run, width = run_width run,
                      channels = run_channels run, pixels = reshape (run_channels run) raw\<rparr>,
                     real (run_frame_count run + i) / run_fps run))
                   (zip [0..<length frames] frames),
                 None)"
  using assms
proof (induction frames arbitrary: run)
  case Nil
  then show ?case
    by (subst decode_all.simps) (simp add: next_frame_def read_frame_def Let_def)
next
  case (Cons raw frames)
  let ?fs = "run_width run * run_height run * run_channels run"
  let ?run' = "run\<lparr>run_stdout := drop ?fs (run_stdout run),
                     run_frame_count := Suc (run_frame_count run)\<rparr>"
  have len: "length raw = ?fs" using Cons.prems(4) by simp
  have tk: "take ?fs (run_stdout run) = raw"
    using Cons.prems(3) len by simp
  have mn: "?fs \<le> length (run_stdout run)"
    using Cons.prems(3) len by simp
  have dr: "drop ?fs (run_stdout run) = concat frames @ partial"
    using Cons.prems(3) len by simp
  have step: "read_frame run =
      (Yielded (\<lparr>height = run_height run, width = run_width run,
                 channels = run_channels run, pixels = reshape (run_channels run) raw\<rparr>,
               real (run_frame_count run) / run_fps run), Running ?run')"
    using Cons.prems(2) len mn by (simp add: read_frame_def Let_def tk min_absorb2)
  have IH: "decode_all ev dec (Running ?run') =
           Some (map (\<lambda>(i, raw).
                    (\<lparr>height = run_height run, width = run_width run,
                      channels = run_channels run, pixels = reshape (run_channels run) raw\<rparr>,
                     real (Suc (run_frame_count run) + i) / run_fps run))
                   (zip [0..<length frames] frames),
                 None)"
    using Cons.IH [of ?run'] Cons.prems dr by simp
  have "[0..<Suc (length frames)] = 0 # map Suc [0..<length frames]"
    by (simp only: map_Suc_upt upt_conv_Cons [OF zero_less_Suc])
  then have shift: "zip [0..<Suc (length frames)] (raw # frames)
        = (0, raw) # map (\<lambda>(i, r). (Suc i, r)) (zip [0..<length frames] frames)"
    by (simp only: zip_Cons_Cons zip_map1)
  show ?case
    by (subst decode_all.simps)
       (simp add: next_frame_def step IH shift case_prod_unfold o_def del: upt_Suc)
qed

text \<open>
  Claim C4.  Let the probed info have a positive width and height and a non-zero frame rate.
  If the decoding process delivers \<open>k\<close> complete frames of \<open>width * height * channels\<close>
  bytes and then ends, possibly after a partial frame, then consuming \<open>decode_frames\<close>
  terminates, raises nothing, and yields exactly \<open>k\<close> frames; the \<open>i\<close>-th has the
  timestamp \<open>i / fps\<close>, the probed shape, and the bytes of the \<open>i\<close>-th complete frame.
\<close>

theorem decode_frames_complete:
  assumes info: "get_info ev dec = (Inr info, dec')"
    and chans: "chans = (if has_alpha info \<or> use_alpha then 4 else 3)"
    and pix: "pix = (if has_alpha info \<or> use_alpha then ''rgba'' else ''rgb24'')"
    and dims: "0 < info_width info" "0 < info_height info"
    and rate: "info_fps info \<noteq> 0"
    and stream: "ffmpeg_decode ev (filepath dec') pix = concat frames @ partial"
    and full: "\<forall>raw\<in>set frames. length raw = info_width info * info_height info * chans"
    and short: "length partial < info_width info * info_height info * chans"
  shows "\<exists>out. decode_all ev dec (Fresh use_alpha) = Some (out, None) \<and>
           length out = length frames \<and>
           (\<forall>i<length frames.
              snd (out ! i) = real i / info_fps info \<and>
              height (fst (out ! i)) = info_height info \<and>
              width (fst (out ! i)) = info_width info \<and>
              channels (fst (out ! i)) = chans \<and>
              pixels (fst (out ! i)) = reshape chans (frames ! i) \<and>
              tobytes (fst (out ! i)) = frames ! i)"
proof -
  let ?run = "\<lparr>run_width = info_width info, run_height = info_height info,
                run_channels = chans, run_fps = info_fps info,
                run_stdout = ffmpeg_decode ev (filepath dec') pix, run_frame_count = 0\<rparr>"
  let ?mk = "\<lambda>(i, raw). (\<lparr>height = info_height info, width = info_width info,
                      channels = chans, pixels = reshape chans raw\<rparr>,
                     real i / info_fps info)"
  let ?out = "map ?mk (zip [0..<length frames] frames)"
  have cpos: "0 < chans" using chans by simp
  have fpos: "0 < run_width ?run * run_height ?run * run_channels ?run"
    using dims cpos by simp
  have first: "next_frame ev dec (Fresh use_alpha) = (read_frame ?run, dec')"
    using info chans pix by (simp add: next_frame_def)
  have same: "next_frame ev dec' (Running ?run) = (read_frame ?run, dec')"
    by (simp add: next_frame_def)
  have "decode_all ev dec (Fresh use_alpha) = decode_all ev dec' (Running ?run)"
    by (subst decode_all.simps, subst (2) decode_all.simps) (simp only: first same)
  also have "\<dots> = Some (?out, None)"
    using decode_all_running [of ?run frames partial ev dec'] fpos rate stream full short
    by simp
  finally have res: "decode_all ev dec (Fresh use_alpha) = Some (?out, None)" .
  have nth: "?out ! i = ?mk (i, frames ! i)" if "i < length frames" for i
    using that by simp
  have "\<forall>i<length frames.
              snd (?out ! i) = real i / info_fps info \<and>
              height (fst (?out ! i)) = info_height info \<and>
              width (fst (?out ! i)) = info_width info \<and>
              channels (fst (?out ! i)) = chans \<and>
              pixels (fst (?out ! i)) = reshape chans (frames ! i) \<and>
              tobytes (fst (?out ! i)) = frames ! i"
    using cpos by (simp add: nth tobytes_def concat_reshape)
  moreover have "length ?out = length frames" by simp
  ultimately show ?thesis using res by blast
qed

lemma py_int_1: "py_int ''1'' = Inr 1" and py_int_10: "py_int ''10'' = Inr 10"
  by (simp_all add: py_int_def strip_def is_space_def split_sign_def digits_value_def
      digit_value_def is_digit_def)

lemma truncating_world_info:
  "read_probe (ffprobe truncating_world path) =
     Inr \<lparr>info_width = 2, info_height = 1, info_fps = 10, info_duration = 1 / 10,
          info_nb_frames = 1, has_alpha = False, info_pix_fmt = ''yuv420p''\<rparr>"
  by (simp add: truncating_world_def read_probe_def parse_frame_rate_def probe_duration_def
      detect_alpha_def py_int_1 py_int_10)

theorem decode_frames_complete_witness:
  "decode_all truncating_world \<lparr>filepath = ''a.webm'', cached_info = None\<rparr> (Fresh False)
     = Some ([(\<lparr>height = 1, width = 2, channels = 3, pixels = [[1, 2, 3], [4, 5, 6]]\<rparr>, 0)],
             None) \<and>
   ffmpeg_decode truncating_world ''a.webm'' ''rgb24'' = concat [[1, 2, 3, 4, 5, 6]] @ [7]"
proof -
  let ?dec = "\<lparr>filepath = ''a.webm'', cached_info = None\<rparr>"
  let ?info = "\<lparr>info_width = 2, info_height = 1, info_fps = 10, info_duration = 1 / 10,
          info_nb_frames = 1, has_alpha = False, info_pix_fmt = ''yuv420p''\<rparr>"
  have gi: "get_info truncating_world ?dec = (Inr ?info, ?dec\<lparr>cached_info := Some ?info\<rparr>)"
    by (simp add: get_info_def truncating_world_info)
  have st: "ffmpeg_decode truncating_world (filepath (?dec\<lparr>cached_info := Some ?info\<rparr>)) ''rgb24''
              = concat [[1, 2, 3, 4, 5, 6]] @ [7]"
    by (simp add: truncating_world_def)
  from decode_frames_complete [OF gi, of 3 False "''rgb24''" "[[1, 2, 3, 4, 5, 6]]" "[7]"] st
  obtain out where r: "decode_all truncating_world ?dec (Fresh False) = Some (out, None)"
    and l: "length out = 1"
    and t: "snd (out ! 0) = 0" and h: "height (fst (out ! 0)) = 1"
    and w: "width (fst (out ! 0)) = 2" and c: "channels (fst (out ! 0)) = 3"
    and p: "pixels (fst (out ! 0)) = reshape 3 [1, 2, 3, 4, 5, 6]"
    by auto
  have rs: "reshape 3 [1, 2, 3, 4, 5, 6 :: uint8] = [[1, 2, 3], [4, 5, 6]]"
    by (simp add: reshape.simps)
  from l obtain x where out: "out = [x]"
    by (cases out) auto
  have "x = (\<lparr>height = 1, width = 2, channels = 3, pixels = [[1, 2, 3], [4, 5, 6]]\<rparr>, 0)"
    using t h w c p rs unfolding out by (cases x) auto
  with r out st show ?thesis by simp
qed

section \<open>Cleanup after a failed conversion\<close>

lemma py_int_2: "py_int ''2'' = Inr 2"
  by (simp add: py_int_def strip_def is_space_def split_sign_def digits_value_def
      digit_value_def is_digit_def)

lemma lagging_world_consts:
  "ffmpeg_sample lagging_world path n = (1, [])"
  "encoder_exit lagging_world q = 0"
  "encoder_output lagging_world q = (if stdin_closed q then Some (stdin_data q) else None)"
  "encoder_write lagging_world q bytes
     = (if stdin_data q = [] then Written else BrokenPipe False True)"
  "ffmpeg_decode lagging_world path pix = [1, 2, 3, 4, 5, 6, 7, 8, 9, 10, 11, 12]"
  "with_suffix lagging_world = replace_suffix"
  by (simp_all add: lagging_world_def)

lemma lagging_world_info:
  "read_probe (ffprobe lagging_world path) =
     Inr \<lparr>info_width = 2, info_height = 1, info_fps = 10, info_duration = 1 / 5,
          info_nb_frames = 2, has_alpha = False, info_pix_fmt = ''yuv420p''\<rparr>"
  by (simp add: lagging_world_def read_probe_def parse_frame_rate_def probe_duration_def
      detect_alpha_def py_int_1 py_int_2 py_int_10)

lemma reshape_first: "reshape 3 [1, 2, 3, 4, 5, 6 :: uint8] = [[1, 2, 3], [4, 5, 6]]"
  and reshape_second: "reshape 3 [7, 8, 9, 10, 11, 12 :: uint8] = [[7, 8, 9], [10, 11, 12]]"
  by (simp_all add: reshape.simps)

lemma lagging_world_first_pull:
  "next_frame lagging_world
      \<lparr>filepath = ''a.webm'',
         cached_info = Some \<lparr>info_width = 2, info_height = 1, info_fps = 10,
            info_duration = 1 / 5, info_nb_frames = 2, has_alpha = False,
            info_pix_fmt = ''yuv420p''\<rparr>\<rparr>
      (Fresh False)
   = ((Yielded (\<lparr>height = 1, width = 2, channels = 3, pixels = [[1, 2, 3], [4, 5, 6]]\<rparr>, 0),
       Running \<lparr>run_width = 2, run_height = 1, run_channels = 3, run_fps = 10,
                 run_stdout = [7, 8, 9, 10, 11, 12], run_frame_count = 1\<rparr>),
      \<lparr>filepath = ''a.webm'',
         cached_info = Some \<lparr>info_width = 2, info_height = 1, info_fps = 10,
            info_duration = 1 / 5, info_nb_frames = 2, has_alpha = False,
            info_pix_fmt = ''yuv420p''\<rparr>\<rparr>)"
  by (simp add: next_frame_def get_info_def read_frame_def lagging_world_consts reshape_first)

lemma lagging_world_second_pull:
  "next_frame lagging_world dec
      (Running \<lparr>run_width = 2, run_height = 1, run_channels = 3, run_fps = 10,
                 run_stdout = [7, 8, 9, 10, 11, 12], run_frame_count = 1\<rparr>)
   = ((Yielded (\<lparr>height = 1, width = 2, channels = 3, pixels = [[7, 8, 9], [10, 11, 12]]\<rparr>,
                1 / 10),
       Running \<lparr>run_width = 2, run_height = 1, run_channels = 3, run_fps = 10,
                 run_stdout = [], run_frame_count = 2\<rparr>),
      dec)"
  by (simp add: next_frame_def read_frame_def reshape_second)

lemma lagging_world_first_frame:
  "add_frame lagging_world (GifWriter ''a.gif'' 10 False)
      \<lparr>height = 1, width = 2, channels = 3, pixels = [[1, 2, 3], [4, 5, 6]]\<rparr> fs
   = (Inr (),
      \<lparr>output_path = ''a.gif'', fps = 10, use_transparency = False,
         process = Some \<lparr>pix_fmt_arg = ''rgb24'', size_arg = (2, 1), rate_arg = 10,
                          transparent_filter = False, output_arg = ''a.gif'',
                          stdin_data = [1, 2, 3, 4, 5, 6], unflushed = False,
                          stdin_closed = False, returncode = None\<rparr>,
         frame_count = 1, started_width = Some 2, started_height = Some 1\<rparr>,
      fs)"
  by (simp add: add_frame_def GifWriter_def start_ffmpeg_def lagging_world_consts
      encoder_effect_def ensure_frame_format_def tobytes_def)

lemma lagging_world_second_frame:
  "add_frame lagging_world
      \<lparr>output_path = ''a.gif'', fps = 10, use_transparency = False,
         process = Some \<lparr>pix_fmt_arg = ''rgb24'', size_arg = (2, 1), rate_arg = 10,
                          transparent_filter = False, output_arg = ''a.gif'',
                          stdin_data = [1, 2, 3, 4, 5, 6], unflushed = False,
                          stdin_closed = False, returncode = None\<rparr>,
         frame_count = 1, started_width = Some 2, started_height = Some 1\<rparr>
      \<lparr>height = 1, width = 2, channels = 3, pixels = [[7, 8, 9], [10, 11, 12]]\<rparr> fs
   = (Inl BrokenPipeError,
      \<lparr>output_path = ''a.gif'', fps = 10, use_transparency = False,
         process = Some \<lparr>pix_fmt_arg = ''rgb24'', size_arg = (2, 1), rate_arg = 10,
                          transparent_filter = False, output_arg = ''a.gif'',
                          stdin_data = [1, 2, 3, 4, 5, 6], unflushed = True,
                          stdin_closed = False, returncode = None\<rparr>,
         frame_count = 1, started_width = Some 2, started_height = Some 1\<rparr>,
      fs)"
  by (simp add: add_frame_def lagging_world_consts encoder_effect_def ensure_frame_format_def
      tobytes_def)

lemma lagging_world_frames:
  "frame_loop lagging_world False
      \<lparr>filepath = ''a.webm'',
         cached_info = Some \<lparr>info_width = 2, info_height = 1, info_fps = 10,
            info_duration = 1 / 5, info_nb_frames = 2, has_alpha = False,
            info_pix_fmt = ''yuv420p''\<rparr>\<rparr>
      (Fresh False) (GifWriter ''a.gif'' 10 False) fs 0
   = Some (Inl (FrameProcessingError 1 BrokenPipeError),
           \<lparr>output_path = ''a.gif'', fps = 10, use_transparency = False,
              process = Some \<lparr>pix_fmt_arg = ''rgb24'', size_arg = (2, 1), rate_arg = 10,
                               transparent_filter = False, output_arg = ''a.gif'',
                               stdin_data = [1, 2, 3, 4, 5, 6], unflushed = True,
                               stdin_closed = False, returncode = None\<rparr>,
              frame_count = 1, started_width = Some 2, started_height = Some 1\<rparr>,
           fs)"
  apply (subst frame_loop.simps)
  apply (simp only: lagging_world_first_pull prod.case pull.case process_frame_def if_False
      sum.case lagging_world_first_frame)
  apply (subst frame_loop.simps)
  apply (simp only: lagging_world_second_pull prod.case pull.case process_frame_def if_False
      sum.case lagging_world_second_frame)
  apply simp
  done

lemma estimated_frames_example:
  "estimated_frames \<lparr>info_width = 2, info_height = 1, info_fps = 10, info_duration = 1 / 5,
          info_nb_frames = 2, has_alpha = False, info_pix_fmt = ''yuv420p''\<rparr> = Inr 2"
proof -
  have "(2::real) ^ 1 \<le> 2 ^ 1023" by (rule power_increasing) simp_all
  then have "(2::real) < 2 ^ 1024" by simp
  then show ?thesis by (simp add: estimated_frames_def)
qed

text \<open>
  Claim C3 asks that after a failed conversion no partial output file remains on disk.  The
  handler removes the file that exists when it runs, but the function never closes, waits
  for or stops the encoder when the frame loop fails, so the encoder outlives the call.  In
  \<open>lagging_world\<close> the second \<open>add_frame\<close> fails with a broken pipe while the encoder is
  running: the conversion raises "Frame processing error at frame 1", at that moment there is
  no output file for the handler to remove, and the encoder that is left creates the
  truncated \<open>a.gif\<close> afterwards.
\<close>

theorem abandoned_encoder_writes_output:
  "convert_webm_to_gif lagging_world ''a.webm'' None [''a.webm'' \<mapsto> [0]]
     = Some (Inl (FrameProcessingError 1 BrokenPipeError),
             [''a.webm'' \<mapsto> [0]],
             Some \<lparr>pix_fmt_arg = ''rgb24'', size_arg = (2, 1), rate_arg = 10,
                    transparent_filter = False, output_arg = ''a.gif'',
                    stdin_data = [1, 2, 3, 4, 5, 6], unflushed = True,
                    stdin_closed = False, returncode = None\<rparr>) \<and>
   [''a.webm'' \<mapsto> [0 :: uint8]] ''a.gif'' = None \<and>
   abandoned_encoder lagging_world
     (Some \<lparr>pix_fmt_arg = ''rgb24'', size_arg = (2, 1), rate_arg = 10,
             transparent_filter = False, output_arg = ''a.gif'',
             stdin_data = [1, 2, 3, 4, 5, 6], unflushed = True,
             stdin_closed = False, returncode = None\<rparr>)
     [''a.webm'' \<mapsto> [0]] ''a.gif''
     = Some [1, 2, 3, 4, 5, 6]"
proof -
  define info where "info = \<lparr>info_width = 2, info_height = 1, info_fps = 10,
      info_duration = 1 / 5, info_nb_frames = 2, has_alpha = False,
      info_pix_fmt = ''yuv420p''\<rparr>"
  define dec where "dec = \<lparr>filepath = ''a.webm'', cached_info = Some info\<rparr>"
  define fs :: files where "fs = [''a.webm'' \<mapsto> [0]]"
  define p where "p = \<lparr>pix_fmt_arg = ''rgb24'', size_arg = (2, 1), rate_arg = 10,
      transparent_filter = False, output_arg = ''a.gif'',
      stdin_data = [1, 2, 3, 4, 5, 6], unflushed = True, stdin_closed = False,
      returncode = None\<rparr>"
  define wr where "wr = \<lparr>output_path = ''a.gif'', fps = 10, use_transparency = False,
      process = Some p, frame_count = 1, started_width = Some 2, started_height = Some 1\<rparr>"
  have out: "resolve_gif_path lagging_world ''a.webm'' None = ''a.gif''"
    by (simp add: resolve_gif_path_def lagging_world_consts replace_suffix_def)
  have s1: "WebmDecoder fs ''a.webm'' = Inr \<lparr>filepath = ''a.webm'', cached_info = None\<rparr>"
    by (simp add: WebmDecoder_def fs_def)
  have s2: "get_info lagging_world \<lparr>filepath = ''a.webm'', cached_info = None\<rparr>
              = (Inr info, dec)"
    by (simp add: get_info_def lagging_world_info info_def dec_def)
  have ha: "has_alpha info = False" and rt: "info_fps info = 10" by (simp_all add: info_def)
  have s3: "analyze_black_pixels lagging_world dec 10 = (Inr 0, dec)"
    by (simp add: analyze_black_pixels_def get_info_def dec_def lagging_world_consts)
  have s4: "detect_transparency False 0 = (False, False)"
    by (simp add: detect_transparency_def)
  have s4': "estimated_frames info = Inr 2"
    unfolding info_def by (rule estimated_frames_example)
  have s5: "frame_loop lagging_world False dec (Fresh False) (GifWriter ''a.gif'' 10 False) fs 0
              = Some (Inl (FrameProcessingError 1 BrokenPipeError), wr, fs)"
    unfolding dec_def info_def wr_def p_def by (rule lagging_world_frames)
  have s6: "running_process wr = Some p"
    by (simp add: running_process_def wr_def p_def)
  have body: "try_convert lagging_world ''a.webm'' ''a.gif'' fs
     = Some (Inl (FrameProcessingError 1 BrokenPipeError), fs, Some p)"
    unfolding try_convert_def
    apply (simp only: s1 sum.case)
    apply (simp only: s2 prod.case sum.case)
    apply (simp only: ha if_False s3 prod.case sum.case)
    apply (simp only: s4 Let_def prod.case rt s4' sum.case)
    apply (simp only: s5 option.case prod.case sum.case s6)
    done
  have absent: "fs ''a.gif'' = None" by (simp add: fs_def)
  have whole: "convert_webm_to_gif lagging_world ''a.webm'' None fs
     = Some (Inl (FrameProcessingError 1 BrokenPipeError), fs, Some p)"
    unfolding convert_webm_to_gif_def
    by (simp only: out Let_def body option.case prod.case sum.case absent not_not refl
        not_True_eq_False if_False)
  have later: "abandoned_encoder lagging_world (Some p) fs ''a.gif'' = Some [1, 2, 3, 4, 5, 6]"
    by (simp add: abandoned_encoder_def encoder_effect_def lagging_world_consts p_def)
  from whole absent later show ?thesis
    unfolding fs_def p_def by (intro conjI)
qed

end
